theory Spec2Isabelle
  imports Complex_Main "HOL-Library.Signed_Division"
begin

section \<open>The Cartesian index mapper (ewoms/common/cartesianindexmapper.hh)\<close>

text \<open>
  \<^verbatim>\<open>CartesianIndexMapper<Grid>\<close> holds the logical Cartesian dimensions of the grid
  (a \<^verbatim>\<open>std::array<int, dimension>\<close>) and, for every active (compressed) cell, its index
  in the logical Cartesian grid (a \<^verbatim>\<open>std::vector<int>\<close>). \<^verbatim>\<open>dimension\<close> is the
  compile-time constant \<^verbatim>\<open>Grid::dimension\<close>. The members \<^verbatim>\<open>cartesianDimensions_\<close>
  and \<^verbatim>\<open>cartesianIndex_\<close> are the fields \<open>m_cartesianDimensions\<close> and
  \<open>m_cartesianIndex\<close> (an identifier cannot end with an underscore here). C++
  \<^verbatim>\<open>int\<close> values are modelled by \<open>int\<close>; \<^verbatim>\<open>/\<close> and \<^verbatim>\<open>%\<close> truncate towards
  zero (\<open>sdiv\<close>, \<open>smod\<close>). Signed overflow is undefined behaviour in C++ and is not
  modelled.
\<close>

record CartesianIndexMapper =
  dimension :: nat
  m_cartesianDimensions :: "int list"
  m_cartesianIndex :: "int list"

datatype cim_error = AssertionFailed | OutOfBounds | DivisionByZero

definition cartesianDimensions :: "CartesianIndexMapper \<Rightarrow> int list" where
  "cartesianDimensions m = m_cartesianDimensions m"

definition compressedSize :: "CartesianIndexMapper \<Rightarrow> int" where
  "compressedSize m = int (length (m_cartesianIndex m))"

text \<open>
  \<^verbatim>\<open>computeCartesianSize\<close>: the product of all Cartesian dimensions, accumulated from
  \<^verbatim>\<open>cartesianDimensions()[0]\<close> over \<^verbatim>\<open>d = 1 .. dimension-1\<close>.
\<close>

definition computeCartesianSize :: "CartesianIndexMapper \<Rightarrow> int" where
  "computeCartesianSize m =
     foldl (\<lambda>size d. size * cartesianDimensions m ! d)
           (cartesianDimensions m ! 0) [1..<dimension m]"

definition cartesianSize :: "CartesianIndexMapper \<Rightarrow> int" where
  "cartesianSize m = computeCartesianSize m"

text \<open>
  \<^verbatim>\<open>int cartesianIndex(const int compressedElementIndex)\<close>: the assertion
  \<^verbatim>\<open>compressedElementIndex < compressedSize()\<close>, then the vector read. A negative index
  passes the assertion and reads outside the vector.
\<close>

definition cartesianIndex :: "CartesianIndexMapper \<Rightarrow> int \<Rightarrow> cim_error + int" where
  "cartesianIndex m compressedElementIndex =
     (if \<not> compressedElementIndex < compressedSize m then Inl AssertionFailed
      else if compressedElementIndex < 0 then Inl OutOfBounds
      else Inr (m_cartesianIndex m ! nat compressedElementIndex))"

text \<open>
  \<^verbatim>\<open>int cartesianIndex(const std::array<int,dimension>& coords)\<close>: the loop state is the
  pair \<^verbatim>\<open>(cartIndex, factor)\<close>.
\<close>

definition cartesianIndex_coords :: "CartesianIndexMapper \<Rightarrow> int list \<Rightarrow> int" where
  "cartesianIndex_coords m coords =
     fst (foldl (\<lambda>(cartIndex, factor) i.
                   (cartIndex + coords ! i * factor, factor * cartesianDimensions m ! i))
                (coords ! 0, cartesianDimensions m ! 0) [1..<dimension m])"

text \<open>
  \<^verbatim>\<open>cartesianCoordinate(compressedElementIndex, coords)\<close> writes into the array it is
  given. The loop over \<^verbatim>\<open>d = 0 .. dimension-3\<close> carries \<^verbatim>\<open>(gc, coords)\<close>; a zero
  divisor is an error of the model. The two last coordinates are written after the loop:
  the remainder is taken by \<^verbatim>\<open>cartesianDimensions()[dimension-2]\<close>, the quotient by
  \<^verbatim>\<open>cartesianDimensions()[dimension-1]\<close>, as the source has it.
\<close>

fun cartesianCoordinate_loop ::
  "CartesianIndexMapper \<Rightarrow> nat list \<Rightarrow> int \<times> int list \<Rightarrow> cim_error + (int \<times> int list)" where
  "cartesianCoordinate_loop m [] st = Inr st"
| "cartesianCoordinate_loop m (d # ds) (gc, coords) =
     (if cartesianDimensions m ! d = 0 then Inl DivisionByZero
      else cartesianCoordinate_loop m ds
             (gc sdiv cartesianDimensions m ! d,
              coords[d := gc smod cartesianDimensions m ! d]))"

definition cartesianCoordinate ::
  "CartesianIndexMapper \<Rightarrow> int \<Rightarrow> int list \<Rightarrow> cim_error + int list" where
  "cartesianCoordinate m compressedElementIndex coords =
     (case cartesianIndex m compressedElementIndex of
        Inl e \<Rightarrow> Inl e
      | Inr gc0 \<Rightarrow>
          if dimension m \<ge> 2 then
            (case cartesianCoordinate_loop m [0..<dimension m - 2] (gc0, coords) of
               Inl e \<Rightarrow> Inl e
             | Inr (gc, coords1) \<Rightarrow>
                 if cartesianDimensions m ! (dimension m - 2) = 0
                    \<or> cartesianDimensions m ! (dimension m - 1) = 0
                 then Inl DivisionByZero
                 else Inr (coords1
                        [dimension m - 2 := gc smod cartesianDimensions m ! (dimension m - 2),
                         dimension m - 1 := gc sdiv cartesianDimensions m ! (dimension m - 1)]))
          else Inr (coords[0 := gc0]))"

text \<open>A 2 x 3 logical grid with one active cell, whose Cartesian index is 2.\<close>

definition grid_2x3 :: CartesianIndexMapper where
  "grid_2x3 = \<lparr>dimension = 2, m_cartesianDimensions = [2, 3], m_cartesianIndex = [2]\<rparr>"


section \<open>The brine component (dumux/new_material/components/brine.hh)\<close>

text \<open>
  \<^verbatim>\<open>Brine<Scalar>\<close> computes its properties from those of \<^verbatim>\<open>Dune::H2O<Scalar>\<close> and from
  the static member \<^verbatim>\<open>salinity\<close>. The header \<^verbatim>\<open>h2o.hh\<close> is not part of the sources at
  hand, so the four functions of \<^verbatim>\<open>H2O\<close> that the liquid properties use are taken as
  parameters; together with the current value of \<^verbatim>\<open>salinity\<close> they form the record
  \<open>Brine\<close> that every function below receives. \<^verbatim>\<open>Scalar\<close> is modelled by \<open>real\<close>:
  the arithmetic is exact, a division by zero gives 0 where IEEE arithmetic gives an
  infinity or a NaN, and \<^verbatim>\<open>pow(x, 0.8)\<close> is \<open>x powr 0.8\<close>, which is 0 at \<open>x = 0\<close> as in C.
\<close>

record H2O =
  H2O_vaporPressure :: "real \<Rightarrow> real"
  H2O_liquidEnthalpy :: "real \<Rightarrow> real \<Rightarrow> real"
  H2O_liquidDensity :: "real \<Rightarrow> real \<Rightarrow> real"
  H2O_liquidViscosity :: "real \<Rightarrow> real \<Rightarrow> real"

record Brine =
  water :: H2O
  salinity :: real

definition vaporPressure :: "Brine \<Rightarrow> real \<Rightarrow> real" where
  "vaporPressure b T = H2O_vaporPressure (water b) T"

text \<open>The coefficient tables \<^verbatim>\<open>f\<close> and \<^verbatim>\<open>a\<close> of \<^verbatim>\<open>liquidEnthalpy\<close>.\<close>

definition enthalpy_f :: "real list" where
  "enthalpy_f = [2.63500 / 10, 7.48368 / 10 ^ 6, 1.44611 / 10 ^ 6, - (3.80860 / 10 ^ 10)]"

definition enthalpy_a :: "real list list" where
  "enthalpy_a =
     [[- 9633.6, - 4080.0, 286.49],
      [166.58, 68.577, - 4.6856],
      [- 0.90963, - 0.36524, 0.249667 / 10],
      [0.17965 / 10 ^ 2, 0.71924 / 10 ^ 3, - (0.4900 / 10 ^ 4)]]"

text \<open>\<^verbatim>\<open>S_lSAT\<close>, the salinity at which \<^verbatim>\<open>liquidEnthalpy\<close> caps the salinity it uses.\<close>

definition S_lSAT :: "real \<Rightarrow> real" where
  "S_lSAT theta =
     enthalpy_f ! 0 + enthalpy_f ! 1 * theta + enthalpy_f ! 2 * theta ^ 2
       + enthalpy_f ! 3 * theta ^ 3"

text \<open>The double loop \<^verbatim>\<open>for (i = 0; i<=3; i++) for (j=0; j<=2; j++)\<close> that sums \<^verbatim>\<open>d_h\<close>.\<close>

definition enthalpy_d_h :: "real \<Rightarrow> real \<Rightarrow> real" where
  "enthalpy_d_h theta m =
     foldl (\<lambda>d_h i.
              foldl (\<lambda>d_h j. d_h + enthalpy_a ! i ! j * theta ^ i * m ^ j) d_h [0..<3])
           0 [0..<4]"

definition liquidEnthalpy :: "Brine \<Rightarrow> real \<Rightarrow> real \<Rightarrow> real" where
  "liquidEnthalpy b T p =
     (let theta = T - 273.15;
          S = (if salinity b > S_lSAT theta then S_lSAT theta else salinity b);
          hw = H2O_liquidEnthalpy (water b) T p / 10 ^ 3;
          h_NaCl = (3.6710 * 10 ^ 4 * T + 0.5 * (6.2770 * 10) * T * T
                      - ((6.6670 / 10 ^ 2) / 3) * T * T * T
                      + ((2.8000 / 10 ^ 5) / 4) * T ^ 4) / (58.44 * 10 ^ 3)
                   - 2.045698 * 10 ^ 2;
          m = (10 ^ 3 / 58.44) * (S / (1 - S));
          d_h = enthalpy_d_h theta m;
          delta_h = (4.184 / (10 ^ 3 + (58.44 * m))) * d_h;
          h_ls1 = (1 - S) * hw + S * h_NaCl + S * delta_h;
          h_ls = h_ls1 * 10 ^ 3
      in h_ls)"

definition liquidDensity :: "Brine \<Rightarrow> real \<Rightarrow> real \<Rightarrow> real" where
  "liquidDensity b temperature pressure =
     (let TempC = temperature - 273.15;
          pMPa = pressure / (1.0 * 10 ^ 6);
          rhow = H2O_liquidDensity (water b) temperature pressure
      in rhow +
         1000 * salinity b * (
           0.668 +
           0.44 * salinity b +
           (1.0 / 10 ^ 6) * (
             300 * pMPa -
             2400 * pMPa * salinity b +
             TempC * (
               80.0 -
               3 * TempC -
               3300 * salinity b -
               13 * pMPa +
               47 * pMPa * salinity b))))"

text \<open>
  \<^verbatim>\<open>liquidPressure\<close>: the variables of the \<^verbatim>\<open>for\<close> loop are the counter \<^verbatim>\<open>i\<close>, the
  iterate \<^verbatim>\<open>pressure\<close> and the last step \<^verbatim>\<open>deltaP\<close>. The loop is guarded by
  \<^verbatim>\<open>i < 5 && std::abs(pressure*1e-9) < std::abs(deltaP)\<close>.
\<close>

record lp_state =
  lp_i :: nat
  lp_pressure :: real
  lp_deltaP :: real

definition lp_guard :: "lp_state \<Rightarrow> bool" where
  "lp_guard st \<longleftrightarrow> lp_i st < 5 \<and> \<bar>lp_pressure st * (1 / 10 ^ 9)\<bar> < \<bar>lp_deltaP st\<bar>"

definition lp_body :: "Brine \<Rightarrow> real \<Rightarrow> real \<Rightarrow> real \<Rightarrow> lp_state \<Rightarrow> lp_state" where
  "lp_body b temperature density eps st =
     (let f = liquidDensity b temperature (lp_pressure st) - density;
          df_dp = (liquidDensity b temperature (lp_pressure st + eps)
                    - liquidDensity b temperature (lp_pressure st - eps)) / (2 * eps);
          deltaP = - f / df_dp
      in \<lparr>lp_i = Suc (lp_i st), lp_pressure = lp_pressure st + deltaP, lp_deltaP = deltaP\<rparr>)"

function liquidPressure_loop :: "Brine \<Rightarrow> real \<Rightarrow> real \<Rightarrow> real \<Rightarrow> lp_state \<Rightarrow> lp_state" where
  "liquidPressure_loop b temperature density eps st =
     (if lp_guard st then liquidPressure_loop b temperature density eps
                            (lp_body b temperature density eps st)
      else st)"
  by pat_completeness auto
termination
  by (relation "measure (\<lambda>(b, temperature, density, eps, st). 5 - lp_i st)")
     (auto simp: lp_guard_def lp_body_def Let_def)

declare liquidPressure_loop.simps [simp del]

text \<open>The state in which the loop of \<^verbatim>\<open>liquidPressure\<close> ends, and the value returned.\<close>

definition liquidPressure_run :: "Brine \<Rightarrow> real \<Rightarrow> real \<Rightarrow> lp_state" where
  "liquidPressure_run b temperature density =
     (let pressure = 1.1 * vaporPressure b temperature;
          eps = pressure * (1 / 10 ^ 7);
          deltaP = pressure * 2
      in liquidPressure_loop b temperature density eps
           \<lparr>lp_i = 0, lp_pressure = pressure, lp_deltaP = deltaP\<rparr>)"

definition liquidPressure :: "Brine \<Rightarrow> real \<Rightarrow> real \<Rightarrow> real" where
  "liquidPressure b temperature density = lp_pressure (liquidPressure_run b temperature density)"

definition liquidViscosity :: "Brine \<Rightarrow> real \<Rightarrow> real \<Rightarrow> real" where
  "liquidViscosity b temperature pressure =
     (let temperature = (if temperature \<le> 275 then 275 else temperature);
          T_C = temperature - 273.15;
          A = (0.42 * ((salinity b powr 0.8) - 0.17) ^ 2 + 0.045) * (T_C powr 0.8);
          mu_brine = 0.1 + 0.333 * salinity b
                     + (1.65 + 91.9 * salinity b * salinity b * salinity b) * exp (- A)
      in mu_brine / 1000.0)"


subsection \<open>The Newton iteration as the specification words it\<close>

text \<open>
  The specification describes \<^verbatim>\<open>liquidPressure\<close> as a Newton-Raphson iteration: the
  initial guess \<open>P\<^sub>0 = 1.1 * vaporPressure(T)\<close>, the function \<open>f(P) = density(T,P) - \<rho>*\<close>,
  its derivative by a central difference of step \<open>\<epsilon> = P\<^sub>0 * 10\<^sup>-\<^sup>7\<close>, and the update
  \<open>P \<leftarrow> P - f(P)/f'(P)\<close>. These definitions follow that wording, to be compared with
  the loop above.
\<close>

definition spec_P0 :: "Brine \<Rightarrow> real \<Rightarrow> real" where
  "spec_P0 b T = 1.1 * vaporPressure b T"

definition spec_eps :: "Brine \<Rightarrow> real \<Rightarrow> real" where
  "spec_eps b T = spec_P0 b T * (1 / 10 ^ 7)"

definition spec_f :: "Brine \<Rightarrow> real \<Rightarrow> real \<Rightarrow> real \<Rightarrow> real" where
  "spec_f b T rho P = liquidDensity b T P - rho"

definition spec_df :: "Brine \<Rightarrow> real \<Rightarrow> real \<Rightarrow> real" where
  "spec_df b T P =
     (liquidDensity b T (P + spec_eps b T) - liquidDensity b T (P - spec_eps b T))
       / (2 * spec_eps b T)"

primrec spec_iterate :: "Brine \<Rightarrow> real \<Rightarrow> real \<Rightarrow> nat \<Rightarrow> real" where
  "spec_iterate b T rho 0 = spec_P0 b T"
| "spec_iterate b T rho (Suc k) =
     spec_iterate b T rho k
       - spec_f b T rho (spec_iterate b T rho k) / spec_df b T (spec_iterate b T rho k)"

text \<open>The step \<open>\<Delta>P\<close> that leads to the \<open>k\<close>-th iterate (\<open>k \<ge> 1\<close>).\<close>

definition spec_deltaP :: "Brine \<Rightarrow> real \<Rightarrow> real \<Rightarrow> nat \<Rightarrow> real" where
  "spec_deltaP b T rho k = spec_iterate b T rho k - spec_iterate b T rho (k - 1)"

text \<open>The number of update steps that \<^verbatim>\<open>liquidPressure\<close> performs: the final counter.\<close>

definition liquidPressure_steps :: "Brine \<Rightarrow> real \<Rightarrow> real \<Rightarrow> nat" where
  "liquidPressure_steps b temperature density = lp_i (liquidPressure_run b temperature density)"

text \<open>
  Whether the tolerance \<^verbatim>\<open>std::abs(pressure*1e-9) < std::abs(deltaP)\<close> of the loop guard
  has stopped asking for another step when the loop ends.
\<close>

definition lp_converged :: "lp_state \<Rightarrow> bool" where
  "lp_converged st \<longleftrightarrow> \<not> \<bar>lp_pressure st * (1 / 10 ^ 9)\<bar> < \<bar>lp_deltaP st\<bar>"

text \<open>The state in which \<^verbatim>\<open>liquidPressure\<close> enters its loop, in the words above.\<close>

definition lp_init :: "Brine \<Rightarrow> real \<Rightarrow> lp_state" where
  "lp_init b T = \<lparr>lp_i = 0, lp_pressure = spec_P0 b T, lp_deltaP = spec_P0 b T * 2\<rparr>"

subsection \<open>A stand-in for the water component\<close>

text \<open>
  A water model to run the brine functions on: the vapour pressure is constant, so that
  the initial guess of \<^verbatim>\<open>liquidPressure\<close> is 12; the density rises with the pressure
  along three straight pieces (slope 1 between 9 and 11, slope 1/3 outside); the
  enthalpy is that of a constant heat capacity and the viscosity is constant.
\<close>

definition H2O_kinked :: H2O where
  "H2O_kinked =
     \<lparr>H2O_vaporPressure = (\<lambda>T. 120 / 11),
      H2O_liquidEnthalpy = (\<lambda>T p. 4184 * (T - 273.15)),
      H2O_liquidDensity = (\<lambda>T p. 1000 + (if p > 11 then 1 + (p - 11) / 3
                                          else if p < 9 then - 1 + (p - 9) / 3
                                          else p - 10)),
      H2O_liquidViscosity = (\<lambda>T p. 1 / 1000)\<rparr>"

definition fresh_kinked :: Brine where
  "fresh_kinked = \<lparr>water = H2O_kinked, salinity = 0\<rparr>"


section \<open>The primary variables of the M-phase, N-component model
  (dumux/boxmodels/mpnc/mpncprimaryvariables.hh)\<close>

text \<open>
  A fluid state is read through its accessors \<^verbatim>\<open>temperature(phaseIdx)\<close>,
  \<^verbatim>\<open>pressure(phaseIdx)\<close>, \<^verbatim>\<open>saturation(phaseIdx)\<close>, \<^verbatim>\<open>fugacity(phaseIdx, compIdx)\<close> and
  \<^verbatim>\<open>molarity(phaseIdx, compIdx)\<close>; the record holds these five functions.
\<close>

record FluidState =
  fs_temperature :: "nat \<Rightarrow> real"
  fs_pressure :: "nat \<Rightarrow> real"
  fs_saturation :: "nat \<Rightarrow> real"
  fs_fugacity :: "nat \<Rightarrow> nat \<Rightarrow> real"
  fs_molarity :: "nat \<Rightarrow> nat \<Rightarrow> real"

text \<open>
  What \<^verbatim>\<open>MPNCPrimaryVariables<TypeTag>\<close> takes from its type tag and from headers that are
  not part of the sources at hand: the sizes \<^verbatim>\<open>numEq\<close>, \<^verbatim>\<open>numPhases\<close>,
  \<^verbatim>\<open>numComponents\<close>, the offsets \<^verbatim>\<open>p0Idx\<close>, \<^verbatim>\<open>S0Idx\<close>, \<^verbatim>\<open>fug0Idx\<close> of
  \<^verbatim>\<open>MPNCIndices\<close>, the energy module's \<^verbatim>\<open>setPriVarTemperatures\<close> (it receives the
  primary variables and the fluid state and returns the primary variables with the
  temperature slots written) and \<^verbatim>\<open>NcpFlash::solve\<close> (it receives the fluid state to
  start from, the material-law parameters and the global molarities, and returns the
  fluid state it has computed; the parameter cache it is handed is always a freshly
  constructed one). \<open>ndebug\<close> tells whether the build defines \<^verbatim>\<open>NDEBUG\<close>.
\<close>

record 'mp TypeTag =
  numEq :: nat
  numPhases :: nat
  numComponents :: nat
  p0Idx :: nat
  S0Idx :: nat
  fug0Idx :: nat
  setPriVarTemperatures :: "real list \<Rightarrow> FluidState \<Rightarrow> real list"
  NcpFlash_solve :: "FluidState \<Rightarrow> 'mp \<Rightarrow> real list \<Rightarrow> FluidState"
  ndebug :: bool

datatype mpnc_error = AssertFailed

text \<open>
  \<^verbatim>\<open>assignNaive_\<close>. The primary variables are a \<^verbatim>\<open>Dune::FieldVector<Scalar, numEq>\<close>,
  modelled by a list that the function receives and returns; \<^verbatim>\<open>(*this)[i] = v\<close> is
  \<open>priVars[i := v]\<close>. An index outside the vector is undefined behaviour in C++; the
  list is left as it is.
\<close>

definition assignNaive :: "'mp TypeTag \<Rightarrow> FluidState \<Rightarrow> real list \<Rightarrow> real list" where
  "assignNaive tt fluidState priVars =
     (let priVars = setPriVarTemperatures tt priVars fluidState;
          priVars = foldl (\<lambda>priVars compIdx.
                             priVars[fug0Idx tt + compIdx := fs_fugacity fluidState 0 compIdx])
                          priVars [0..<numComponents tt];
          priVars = priVars[p0Idx tt := fs_pressure fluidState 0];
          priVars = foldl (\<lambda>priVars phaseIdx.
                             priVars[S0Idx tt + phaseIdx := fs_saturation fluidState phaseIdx])
                          priVars [0..<numPhases tt - 1]
      in priVars)"

text \<open>
  The loop of assertions at the head of \<^verbatim>\<open>assignMassConservative\<close>:
  \<^verbatim>\<open>assert(fluidState.temperature(0) == fluidState.temperature(phaseIdx))\<close> for
  \<^verbatim>\<open>phaseIdx = 1 .. numPhases-1\<close>.
\<close>

definition temperatureAsserts :: "'mp TypeTag \<Rightarrow> FluidState \<Rightarrow> bool" where
  "temperatureAsserts tt fluidState =
     list_all (\<lambda>phaseIdx. fs_temperature fluidState 0 = fs_temperature fluidState phaseIdx)
              [1..<numPhases tt]"

text \<open>The double loop that fills \<^verbatim>\<open>globalMolarities\<close>, a vector of \<^verbatim>\<open>numComponents\<close> zeros.\<close>

definition globalMolarities :: "'mp TypeTag \<Rightarrow> FluidState \<Rightarrow> real list" where
  "globalMolarities tt fluidState =
     foldl (\<lambda>gm compIdx.
              foldl (\<lambda>gm phaseIdx.
                       gm[compIdx := gm ! compIdx
                            + fs_saturation fluidState phaseIdx
                              * fs_molarity fluidState phaseIdx compIdx])
                    gm [0..<numPhases tt])
           (replicate (numComponents tt) 0) [0..<numComponents tt]"

text \<open>
  \<^verbatim>\<open>assignMassConservative\<close>. A failed assertion aborts the program (\<open>Inl AssertFailed\<close>);
  it is compiled only without \<^verbatim>\<open>NDEBUG\<close>. \<^verbatim>\<open>fsFlash.assign(fluidState)\<close> copies the
  given fluid state into the one handed to the flash solver (``use the externally given
  fluid state as initial value for the flash calculation'').
\<close>

definition assignMassConservative ::
  "'mp TypeTag \<Rightarrow> FluidState \<Rightarrow> 'mp \<Rightarrow> bool \<Rightarrow> real list \<Rightarrow> mpnc_error + real list" where
  "assignMassConservative tt fluidState matParams isInEquilibrium priVars =
     (if \<not> ndebug tt \<and> \<not> temperatureAsserts tt fluidState then Inl AssertFailed
      else if isInEquilibrium then Inr (assignNaive tt fluidState priVars)
      else
        (let gm = globalMolarities tt fluidState;
             fsFlash = fluidState;
             fsFlash = NcpFlash_solve tt fsFlash matParams gm
         in Inr (assignNaive tt fsFlash priVars)))"

text \<open>
  The offsets fit the vector and the three groups of slots do not overlap: what the
  absent \<^verbatim>\<open>MPNCIndices\<close> has to provide for the slots to be told apart.
\<close>

definition layout_ok :: "'mp TypeTag \<Rightarrow> bool" where
  "layout_ok tt \<longleftrightarrow>
     fug0Idx tt + numComponents tt \<le> numEq tt
     \<and> p0Idx tt < numEq tt
     \<and> S0Idx tt + (numPhases tt - 1) \<le> numEq tt
     \<and> (p0Idx tt < fug0Idx tt \<or> fug0Idx tt + numComponents tt \<le> p0Idx tt)
     \<and> (p0Idx tt < S0Idx tt \<or> S0Idx tt + (numPhases tt - 1) \<le> p0Idx tt)
     \<and> (fug0Idx tt + numComponents tt \<le> S0Idx tt
        \<or> S0Idx tt + (numPhases tt - 1) \<le> fug0Idx tt)"

text \<open>
  A two-phase, two-component isothermal configuration: fugacities in slots 0 and 1, the
  pressure in slot 2, the saturation of phase 0 in slot 3; the energy module writes
  nothing and the flash solver of this example hands its initial state back. The build
  mode is the argument.
\<close>

definition tt_2p2c :: "bool \<Rightarrow> unit TypeTag" where
  "tt_2p2c nd =
     \<lparr>numEq = 4, numPhases = 2, numComponents = 2, p0Idx = 2, S0Idx = 3, fug0Idx = 0,
      setPriVarTemperatures = (\<lambda>priVars fluidState. priVars),
      NcpFlash_solve = (\<lambda>fsFlash matParams gm. fsFlash),
      ndebug = nd\<rparr>"

text \<open>
  The same configuration with an energy equation: the vector has a fifth slot, and the
  energy module assigns the temperature of phase 0 to it (``assign the phase
  temperatures. this is out-sourced to the energy module'', as \<^verbatim>\<open>assignNaive_\<close> says).
\<close>

definition tt_2p2c_energy :: "bool \<Rightarrow> unit TypeTag" where
  "tt_2p2c_energy nd =
     (tt_2p2c nd)\<lparr>numEq := 5,
                  setPriVarTemperatures :=
                    (\<lambda>priVars fluidState. priVars[4 := fs_temperature fluidState 0])\<rparr>"

text \<open>
  A fluid state of these configurations: phase 0 is at 300 K, the temperature of
  phase 1 is the argument.
\<close>

definition fs_example :: "real \<Rightarrow> FluidState" where
  "fs_example T1 =
     \<lparr>fs_temperature = (\<lambda>p. if p = 0 then 300 else T1),
      fs_pressure = (\<lambda>p. if p = 0 then 100000 else 101000),
      fs_saturation = (\<lambda>p. if p = 0 then 0.25 else 0.75),
      fs_fugacity = (\<lambda>p c. if c = 0 then 90000 else 10000),
      fs_molarity = (\<lambda>p c. if p = 0 then (if c = 0 then 40 else 2) else (if c = 0 then 1 else 55))\<rparr>"


section \<open>Properties of the Cartesian index mapper\<close>

text \<open>
  C10 (decode then encode returns the stored Cartesian index). On the 2 x 3 grid the
  stored index 2 of cell 0 is in range (\<open>0 \<le> 2 < 6\<close>, all dimensions positive), it is
  decoded to the coordinates (0, 0), and these encode to 0, not 2: the last coordinate
  is the quotient by \<^verbatim>\<open>cartesianDimensions()[dimension-1] = 3\<close> where the encoding
  multiplies by \<^verbatim>\<open>cartesianDimensions()[dimension-2] = 2\<close>. The coordinates that
  encode to 2 are (0, 1).
\<close>

theorem cartesianCoordinate_roundtrip_fails:
  "cartesianIndex grid_2x3 0 = Inr 2
   \<and> cartesianSize grid_2x3 = 6
   \<and> cartesianCoordinate grid_2x3 0 [0, 0] = Inr [0, 0]
   \<and> cartesianIndex_coords grid_2x3 [0, 0] = 0
   \<and> cartesianIndex_coords grid_2x3 [0, 1] = 2"
  by (simp add: grid_2x3_def cartesianIndex_def compressedSize_def cartesianSize_def
      computeCartesianSize_def cartesianCoordinate_def cartesianDimensions_def
      cartesianIndex_coords_def signed_divide_int_def signed_modulo_int_def
      upt_conv_Cons numeral_2_eq_2)


section \<open>Properties of the brine component\<close>

subsection \<open>Fresh water and the viscosity floor\<close>

lemma powr_08_le: "(1.85::real) powr 0.8 \<le> 1.85"
proof -
  have "(1.85::real) powr 0.8 \<le> 1.85 powr 1"
    by (rule powr_mono) simp_all
  then show ?thesis by simp
qed

lemma liquidViscosity_fresh:
  "salinity b = 0 \<Longrightarrow>
   liquidViscosity b T P
     = (0.1 + 1.65 * exp (- (0.057138 * ((max T 275 - 273.15) powr 0.8)))) / 1000"
  by (simp add: liquidViscosity_def Let_def max_def power2_eq_square)

lemma liquidViscosity_fresh_275:
  assumes "salinity b = 0"
  shows "liquidViscosity b 275 P > 1.5 / 1000"
proof -
  define x where "x = (1.85::real) powr 0.8"
  define y where "y = 0.057138 * x"
  have "x \<le> 1.85" unfolding x_def by (rule powr_08_le)
  then have y: "y \<le> 0.11" by (simp add: y_def)
  have "1 + (- y) \<le> exp (- y)" by (rule exp_ge_add_one_self)
  then have "0.89 \<le> exp (- y)" using y by simp
  then have e: "0.89 \<le> exp (- (0.057138 * x))" by (simp add: y_def)
  have "liquidViscosity b 275 P = (0.1 + 1.65 * exp (- (0.057138 * x))) / 1000"
    using assms by (simp add: liquidViscosity_fresh x_def)
  then show ?thesis using e by simp
qed

lemma upt_0_4: "[0..<4] = [0, 1, 2, 3]"
  by (simp add: upt_rec)

lemma upt_0_3: "[0..<3] = [0, 1, 2]"
  by (simp add: upt_rec)

lemma enthalpy_d_h_sum:
  "enthalpy_d_h theta m =
     - 9633.6 - 4080.0 * m + 286.49 * m ^ 2
     + 166.58 * theta + 68.577 * theta * m - 4.6856 * theta * m ^ 2
     - 0.90963 * theta ^ 2 - 0.36524 * theta ^ 2 * m + 0.0249667 * theta ^ 2 * m ^ 2
     + 0.0017965 * theta ^ 3 + 0.00071924 * theta ^ 3 * m - 0.000049 * theta ^ 3 * m ^ 2"
  by (simp add: enthalpy_d_h_def upt_0_4 upt_0_3 enthalpy_a_def)

lemma S_lSAT_5000: "S_lSAT 5000 = - 11.1538316"
  by (simp add: S_lSAT_def enthalpy_f_def)

lemma S_lSAT_20: "S_lSAT 20 = 0.26422507072"
  by (simp add: S_lSAT_def enthalpy_f_def)

lemma liquidEnthalpy_kinked_5273:
  "liquidEnthalpy fresh_kinked 5273.15 100000
     = 59660251530224892205399922459322009989012339 / 43237681301106000000000000000000"
  by (simp add: liquidEnthalpy_def Let_def fresh_kinked_def H2O_kinked_def S_lSAT_5000
      enthalpy_d_h_sum power_divide)

text \<open>
  C5 (with salinity 0 the brine returns the density, the enthalpy and the viscosity of
  pure water), as stated, fails. On the stand-in water, whose viscosity is 0.001 Pa s
  everywhere, the brine of salinity 0 has a viscosity above 0.0015 Pa s at 275 K: 
  \<^verbatim>\<open>liquidViscosity\<close> never calls \<^verbatim>\<open>H2O::liquidViscosity\<close>. At 5273.15 K the
  cap \<^verbatim>\<open>S_lSAT\<close> is negative, \<^verbatim>\<open>liquidEnthalpy\<close> replaces the salinity 0 by it, and the
  brine enthalpy differs from the water enthalpy.
\<close>

theorem brine_fresh_water_counterexample:
  "salinity fresh_kinked = 0
   \<and> liquidViscosity fresh_kinked 275 100000
       \<noteq> H2O_liquidViscosity (water fresh_kinked) 275 100000
   \<and> liquidEnthalpy fresh_kinked 5273.15 100000
       \<noteq> H2O_liquidEnthalpy (water fresh_kinked) 5273.15 100000"
proof -
  have s: "salinity fresh_kinked = 0"
    by (simp add: fresh_kinked_def)
  have "liquidViscosity fresh_kinked 275 100000 > 1.5 / 1000"
    using s by (rule liquidViscosity_fresh_275)
  moreover have "H2O_liquidViscosity (water fresh_kinked) 275 100000 = 1 / 1000"
    by (simp add: fresh_kinked_def H2O_kinked_def)
  ultimately have v: "liquidViscosity fresh_kinked 275 100000
       \<noteq> H2O_liquidViscosity (water fresh_kinked) 275 100000"
    by simp
  have "H2O_liquidEnthalpy (water fresh_kinked) 5273.15 100000 = 20920000"
    by (simp add: fresh_kinked_def H2O_kinked_def)
  then have h: "liquidEnthalpy fresh_kinked 5273.15 100000
       \<noteq> H2O_liquidEnthalpy (water fresh_kinked) 5273.15 100000"
    using liquidEnthalpy_kinked_5273 by simp
  from s v h show ?thesis by simp
qed

text \<open>
  C5, amended. With salinity 0 the brine density is the water density at every
  temperature and pressure; the brine enthalpy is the water enthalpy wherever the cap
  \<^verbatim>\<open>S_lSAT\<close> of the salinity is not negative; the brine viscosity is the brine's own
  correlation, \<open>(0.1 + 1.65 exp(-0.057138 (max(T, 275) - 273.15)\<^sup>0\<^sup>.\<^sup>8)) / 1000\<close>, which
  depends neither on the water model nor on the pressure.
\<close>

theorem brine_fresh_water:
  assumes "salinity b = 0"
  shows "liquidDensity b T P = H2O_liquidDensity (water b) T P
         \<and> (0 \<le> S_lSAT (T - 273.15)
              \<longrightarrow> liquidEnthalpy b T P = H2O_liquidEnthalpy (water b) T P)
         \<and> liquidViscosity b T P
             = (0.1 + 1.65 * exp (- (0.057138 * ((max T 275 - 273.15) powr 0.8)))) / 1000"
proof -
  have "liquidDensity b T P = H2O_liquidDensity (water b) T P"
    using assms by (simp add: liquidDensity_def)
  moreover have "liquidEnthalpy b T P = H2O_liquidEnthalpy (water b) T P"
    if "0 \<le> S_lSAT (T - 273.15)"
    using assms that by (simp add: liquidEnthalpy_def Let_def)
  ultimately show ?thesis
    using liquidViscosity_fresh [OF assms] by blast
qed

theorem brine_fresh_water_witness:
  "salinity fresh_kinked = 0
   \<and> 0 \<le> S_lSAT (293.15 - 273.15)
   \<and> liquidDensity fresh_kinked 293.15 100000 = 1000 + (1 + (100000 - 11) / 3)
   \<and> liquidEnthalpy fresh_kinked 293.15 100000 = 4184 * 20"
proof -
  have s: "salinity fresh_kinked = 0"
    by (simp add: fresh_kinked_def)
  have c: "0 \<le> S_lSAT (293.15 - 273.15)"
    by (simp add: S_lSAT_20)
  have w: "water fresh_kinked = H2O_kinked"
    by (simp add: fresh_kinked_def)
  from brine_fresh_water [OF s, of "293.15" 100000] c
  have "liquidDensity fresh_kinked 293.15 100000 = H2O_liquidDensity H2O_kinked 293.15 100000"
    and "liquidEnthalpy fresh_kinked 293.15 100000 = H2O_liquidEnthalpy H2O_kinked 293.15 100000"
    by (simp_all add: w)
  then show ?thesis using s c by (simp add: H2O_kinked_def)
qed

text \<open>
  C9 (the viscosity correlation is never evaluated below 275 K): at every temperature
  up to 275 K and every pressure the viscosity is the one at 275 K.
\<close>

theorem liquidViscosity_clamped:
  "T \<le> 275 \<Longrightarrow> liquidViscosity b T P = liquidViscosity b 275 P"
  by (simp add: liquidViscosity_def)

theorem liquidViscosity_clamped_witness:
  "(270::real) \<le> 275
   \<and> liquidViscosity fresh_kinked 270 100000 = liquidViscosity fresh_kinked 275 100000"
  using liquidViscosity_clamped [of 270 fresh_kinked 100000] by simp

subsection \<open>The pressure that belongs to a density\<close>

text \<open>
  The loop of \<^verbatim>\<open>liquidPressure\<close> ends after some number \<open>n\<close> of passes through its body:
  the guard fails after the \<open>n\<close>-th pass and held before each earlier one.
\<close>

lemma loop_unroll:
  "\<exists>n. liquidPressure_loop b T rho eps st = ((lp_body b T rho eps) ^^ n) st
       \<and> \<not> lp_guard (((lp_body b T rho eps) ^^ n) st)
       \<and> (\<forall>j<n. lp_guard (((lp_body b T rho eps) ^^ j) st))"
proof (induction b T rho eps st rule: liquidPressure_loop.induct)
  case (1 b T rho eps st)
  show ?case
  proof (cases "lp_guard st")
    case True
    from 1 [OF True] obtain n where
      n: "liquidPressure_loop b T rho eps (lp_body b T rho eps st)
            = ((lp_body b T rho eps) ^^ n) (lp_body b T rho eps st)"
         "\<not> lp_guard (((lp_body b T rho eps) ^^ n) (lp_body b T rho eps st))"
         "\<forall>j<n. lp_guard (((lp_body b T rho eps) ^^ j) (lp_body b T rho eps st))"
      by blast
    have "liquidPressure_loop b T rho eps st = ((lp_body b T rho eps) ^^ Suc n) st"
      using True n(1) by (subst liquidPressure_loop.simps) (simp add: funpow_swap1)
    moreover have "\<not> lp_guard (((lp_body b T rho eps) ^^ Suc n) st)"
      using n(2) by (simp add: funpow_swap1)
    moreover have "\<forall>j<Suc n. lp_guard (((lp_body b T rho eps) ^^ j) st)"
    proof (intro allI impI)
      fix j assume "j < Suc n"
      show "lp_guard (((lp_body b T rho eps) ^^ j) st)"
      proof (cases j)
        case 0
        then show ?thesis using True by simp
      next
        case (Suc j')
        then show ?thesis using n(3) \<open>j < Suc n\<close> by (simp add: funpow_swap1)
      qed
    qed
    ultimately show ?thesis by blast
  next
    case False
    then have "liquidPressure_loop b T rho eps st = ((lp_body b T rho eps) ^^ 0) st"
      by (subst liquidPressure_loop.simps) simp
    with False show ?thesis by (intro exI [of _ 0]) simp
  qed
qed

lemma liquidPressure_run_eq:
  "liquidPressure_run b T rho = liquidPressure_loop b T rho (spec_eps b T) (lp_init b T)"
  by (simp add: liquidPressure_run_def Let_def lp_init_def spec_eps_def spec_P0_def)

lemma lp_i_init: "lp_i (lp_init b T) = 0"
  by (simp add: lp_init_def)

lemma lp_i_funpow: "lp_i (((lp_body b T rho eps) ^^ k) st) = lp_i st + k"
  by (induction k) (simp_all add: lp_body_def Let_def)

lemma lp_pressure_funpow:
  "lp_pressure (((lp_body b T rho (spec_eps b T)) ^^ k) (lp_init b T)) = spec_iterate b T rho k"
  by (induction k) (simp_all add: lp_body_def Let_def lp_init_def spec_f_def spec_df_def)

lemma lp_deltaP_funpow:
  "lp_deltaP (((lp_body b T rho (spec_eps b T)) ^^ Suc k) (lp_init b T))
     = spec_deltaP b T rho (Suc k)"
  by (simp add: lp_body_def Let_def lp_pressure_funpow spec_deltaP_def spec_f_def spec_df_def)

lemma lp_guard_init: "lp_guard (lp_init b T) \<longleftrightarrow> spec_P0 b T \<noteq> 0"
  by (auto simp: lp_guard_def lp_init_def abs_mult)

lemma lp_guard_funpow_Suc:
  "lp_guard (((lp_body b T rho (spec_eps b T)) ^^ Suc k) (lp_init b T)) \<longleftrightarrow>
     Suc k < 5
     \<and> \<bar>spec_iterate b T rho (Suc k) * (1 / 10 ^ 9)\<bar> < \<bar>spec_deltaP b T rho (Suc k)\<bar>"
  unfolding lp_guard_def lp_i_funpow lp_deltaP_funpow lp_pressure_funpow
  by (simp add: lp_init_def)

lemma lp_guard_converged: "lp_guard st \<longleftrightarrow> lp_i st < 5 \<and> \<not> lp_converged st"
  by (simp add: lp_guard_def lp_converged_def)

lemma liquidPressure_run_cases:
  obtains n where
    "liquidPressure_run b T rho = ((lp_body b T rho (spec_eps b T)) ^^ n) (lp_init b T)"
    "\<not> lp_guard (liquidPressure_run b T rho)"
    "\<forall>j<n. lp_guard (((lp_body b T rho (spec_eps b T)) ^^ j) (lp_init b T))"
    "liquidPressure_steps b T rho = n"
    "liquidPressure b T rho = spec_iterate b T rho n"
    "n \<le> 5"
proof -
  from loop_unroll [of b T rho "spec_eps b T" "lp_init b T"] obtain n where
    n: "liquidPressure_loop b T rho (spec_eps b T) (lp_init b T)
          = ((lp_body b T rho (spec_eps b T)) ^^ n) (lp_init b T)"
       "\<not> lp_guard (((lp_body b T rho (spec_eps b T)) ^^ n) (lp_init b T))"
       "\<forall>j<n. lp_guard (((lp_body b T rho (spec_eps b T)) ^^ j) (lp_init b T))"
    by blast
  have "liquidPressure_steps b T rho = n"
    by (simp add: liquidPressure_steps_def liquidPressure_run_eq n(1) lp_i_funpow lp_i_init)
  moreover have "liquidPressure b T rho = spec_iterate b T rho n"
    by (simp add: liquidPressure_def liquidPressure_run_eq n(1) lp_pressure_funpow)
  moreover have "n \<le> 5"
  proof (rule ccontr)
    assume "\<not> n \<le> 5"
    then have "5 < n" by simp
    with n(3) have "lp_guard (((lp_body b T rho (spec_eps b T)) ^^ 5) (lp_init b T))"
      by blast
    then show False by (simp add: lp_guard_def lp_i_funpow lp_init_def)
  qed
  ultimately show ?thesis using n that by (simp add: liquidPressure_run_eq)
qed

text \<open>The two runs on the stand-in water: the targets 2996/3 and 1000 at 293.15 K.\<close>

lemma liquidPressure_run_converging:
  "liquidPressure_run fresh_kinked 293.15 (2996 / 3)
     = \<lparr>lp_i = 3, lp_pressure = 8, lp_deltaP = 0\<rparr>"
  by (simp add: liquidPressure_run_def vaporPressure_def fresh_kinked_def H2O_kinked_def
      liquidPressure_loop.simps lp_guard_def lp_body_def Let_def liquidDensity_def)

lemma liquidPressure_run_cycling:
  "liquidPressure_run fresh_kinked 293.15 1000
     = \<lparr>lp_i = 5, lp_pressure = 8, lp_deltaP = - 4\<rparr>"
  by (simp add: liquidPressure_run_def vaporPressure_def fresh_kinked_def H2O_kinked_def
      liquidPressure_loop.simps lp_guard_def lp_body_def Let_def liquidDensity_def)

text \<open>
  C3 (\<^verbatim>\<open>liquidPressure\<close> is the Newton-Raphson iteration of the specification). The
  value returned is the iterate \<open>P\<^sub>n\<close> of the specification's iteration, where \<open>n\<close> is
  the number of update steps performed and is at most 5. No step at all is taken
  exactly when the initial guess is 0. A step \<open>k\<close> before the last left a step size
  above the tolerance \<open>|10\<^sup>-\<^sup>9 P\<^sub>k|\<close>; when the loop ends before the fifth step, the
  last step size is within it; and the loop has ended by step \<open>k\<close> as soon as the
  \<open>k\<close>-th step size is below \<open>10\<^sup>-\<^sup>9 P\<^sub>k\<close>.
\<close>

theorem liquidPressure_is_newton:
  "liquidPressure_steps b T rho \<le> 5
   \<and> liquidPressure b T rho = spec_iterate b T rho (liquidPressure_steps b T rho)
   \<and> (liquidPressure_steps b T rho = 0 \<longleftrightarrow> spec_P0 b T = 0)
   \<and> (\<forall>k. 0 < k \<and> k < liquidPressure_steps b T rho \<longrightarrow>
          \<bar>spec_iterate b T rho k * (1 / 10 ^ 9)\<bar> < \<bar>spec_deltaP b T rho k\<bar>)
   \<and> (0 < liquidPressure_steps b T rho \<and> liquidPressure_steps b T rho < 5 \<longrightarrow>
          \<bar>spec_deltaP b T rho (liquidPressure_steps b T rho)\<bar>
            \<le> \<bar>spec_iterate b T rho (liquidPressure_steps b T rho) * (1 / 10 ^ 9)\<bar>)
   \<and> (\<forall>k. 0 < k \<and> \<bar>spec_deltaP b T rho k\<bar> < 1 / 10 ^ 9 * spec_iterate b T rho k \<longrightarrow>
          liquidPressure_steps b T rho \<le> k)"
proof -
  obtain n where
    run: "liquidPressure_run b T rho = ((lp_body b T rho (spec_eps b T)) ^^ n) (lp_init b T)"
    and stop: "\<not> lp_guard (liquidPressure_run b T rho)"
    and go: "\<forall>j<n. lp_guard (((lp_body b T rho (spec_eps b T)) ^^ j) (lp_init b T))"
    and steps: "liquidPressure_steps b T rho = n"
    and val: "liquidPressure b T rho = spec_iterate b T rho n"
    and le5: "n \<le> 5"
    by (rule liquidPressure_run_cases)
  have zero: "n = 0 \<longleftrightarrow> spec_P0 b T = 0"
  proof
    assume "n = 0"
    with stop run show "spec_P0 b T = 0" by (simp add: lp_guard_init)
  next
    assume "spec_P0 b T = 0"
    then have "\<not> lp_guard (lp_init b T)" by (simp add: lp_guard_init)
    with go show "n = 0" by (cases n) auto
  qed
  have before: "\<bar>spec_iterate b T rho k * (1 / 10 ^ 9)\<bar> < \<bar>spec_deltaP b T rho k\<bar>"
    if "0 < k" "k < n" for k
  proof -
    from that obtain k' where k': "k = Suc k'" by (cases k) auto
    from go that have "lp_guard (((lp_body b T rho (spec_eps b T)) ^^ k) (lp_init b T))"
      by blast
    then show ?thesis unfolding k' lp_guard_funpow_Suc by simp
  qed
  have at_stop: "\<bar>spec_deltaP b T rho n\<bar> \<le> \<bar>spec_iterate b T rho n * (1 / 10 ^ 9)\<bar>"
    if "0 < n" "n < 5"
  proof -
    from that obtain n' where n': "n = Suc n'" by (cases n) auto
    from stop that show ?thesis unfolding run n' lp_guard_funpow_Suc by simp
  qed
  have soon: "n \<le> k"
    if "0 < k" "\<bar>spec_deltaP b T rho k\<bar> < 1 / 10 ^ 9 * spec_iterate b T rho k" for k
  proof (rule ccontr)
    assume "\<not> n \<le> k"
    then have "k < n" by simp
    from before [OF that(1) this] that(2) show False by (simp add: abs_if split: if_splits)
  qed
  show ?thesis unfolding steps using le5 val zero before at_stop soon by blast
qed

theorem liquidPressure_is_newton_witness:
  "liquidPressure_steps fresh_kinked 293.15 (2996 / 3) = 3
   \<and> spec_iterate fresh_kinked 293.15 (2996 / 3) 3 = 8
   \<and> \<bar>spec_iterate fresh_kinked 293.15 (2996 / 3) 1 * (1 / 10 ^ 9)\<bar>
       < \<bar>spec_deltaP fresh_kinked 293.15 (2996 / 3) 1\<bar>
   \<and> \<bar>spec_deltaP fresh_kinked 293.15 (2996 / 3) 3\<bar>
       \<le> \<bar>spec_iterate fresh_kinked 293.15 (2996 / 3) 3 * (1 / 10 ^ 9)\<bar>"
proof -
  have st: "liquidPressure_steps fresh_kinked 293.15 (2996 / 3) = 3"
    unfolding liquidPressure_steps_def liquidPressure_run_converging by simp
  have v: "liquidPressure fresh_kinked 293.15 (2996 / 3) = 8"
    unfolding liquidPressure_def liquidPressure_run_converging by simp
  from liquidPressure_is_newton [of fresh_kinked "293.15" "2996 / 3"]
  show ?thesis unfolding st v by auto
qed

text \<open>
  C6 (\<^verbatim>\<open>liquidPressure\<close> returns a plain pressure and no sign of convergence). The
  function returns a \<open>real\<close>, the last iterate. When the loop ends with the step size
  still above the tolerance, all 5 steps have been taken and the value is the fifth
  iterate. The value
  does not tell the two cases apart: on the stand-in water at 293.15 K the target
  density 2996/3 is met within the tolerance and the target 1000 is not, and both calls
  return the same pressure.
\<close>

theorem liquidPressure_no_convergence_signal:
  "liquidPressure b T rho = spec_iterate b T rho (liquidPressure_steps b T rho)
   \<and> (\<not> lp_converged (liquidPressure_run b T rho) \<longrightarrow>
      liquidPressure_steps b T rho = 5 \<and> liquidPressure b T rho = spec_iterate b T rho 5)
   \<and> lp_converged (liquidPressure_run fresh_kinked 293.15 (2996 / 3))
   \<and> \<not> lp_converged (liquidPressure_run fresh_kinked 293.15 1000)
   \<and> liquidPressure fresh_kinked 293.15 (2996 / 3) = liquidPressure fresh_kinked 293.15 1000"
proof -
  obtain n where
    stop: "\<not> lp_guard (liquidPressure_run b T rho)"
    and steps: "liquidPressure_steps b T rho = n"
    and val: "liquidPressure b T rho = spec_iterate b T rho n"
    and le5: "n \<le> 5"
    by (rule liquidPressure_run_cases)
  have "n = 5" if "\<not> lp_converged (liquidPressure_run b T rho)"
  proof -
    from stop that have "\<not> lp_i (liquidPressure_run b T rho) < 5"
      by (simp add: lp_guard_converged)
    then show ?thesis using le5 steps by (simp add: liquidPressure_steps_def)
  qed
  then have exhausted: "\<not> lp_converged (liquidPressure_run b T rho) \<longrightarrow>
      liquidPressure_steps b T rho = 5 \<and> liquidPressure b T rho = spec_iterate b T rho 5"
    using steps val by simp
  have "lp_converged (liquidPressure_run fresh_kinked 293.15 (2996 / 3))"
    unfolding liquidPressure_run_converging by (simp add: lp_converged_def)
  moreover have "\<not> lp_converged (liquidPressure_run fresh_kinked 293.15 1000)"
    unfolding liquidPressure_run_cycling by (simp add: lp_converged_def)
  moreover have "liquidPressure fresh_kinked 293.15 (2996 / 3)
                   = liquidPressure fresh_kinked 293.15 1000"
    unfolding liquidPressure_def liquidPressure_run_converging liquidPressure_run_cycling
    by simp
  ultimately show ?thesis using exhausted steps val by blast
qed

theorem liquidPressure_no_convergence_signal_witness:
  "\<not> lp_converged (liquidPressure_run fresh_kinked 293.15 1000)
   \<and> liquidPressure_steps fresh_kinked 293.15 1000 = 5
   \<and> spec_iterate fresh_kinked 293.15 1000 5 = 8"
proof -
  have v: "liquidPressure fresh_kinked 293.15 1000 = 8"
    unfolding liquidPressure_def liquidPressure_run_cycling by simp
  from liquidPressure_no_convergence_signal [of fresh_kinked "293.15" 1000]
  show ?thesis unfolding v by simp
qed

section \<open>Properties of the primary variables\<close>

subsection \<open>What the loops of \<^verbatim>\<open>assignNaive_\<close> and \<^verbatim>\<open>assignMassConservative\<close> compute\<close>

lemma length_write_range [simp]:
  "length (foldl (\<lambda>pv k. pv[a + k := g k]) pv [0..<n]) = length pv"
  by (induction n) simp_all

lemma nth_write_range:
  "j < length pv \<Longrightarrow>
   foldl (\<lambda>pv k. pv[a + k := g k]) pv [0..<n] ! j
     = (if a \<le> j \<and> j < a + n then g (j - a) else pv ! j)"
proof (induction n)
  case 0
  then show ?case by auto
next
  case (Suc n)
  let ?xs = "foldl (\<lambda>pv k. pv[a + k := g k]) pv [0..<n]"
  have "foldl (\<lambda>pv k. pv[a + k := g k]) pv [0..<Suc n] ! j = ?xs[a + n := g n] ! j"
    by simp
  also have "\<dots> = (if a + n = j then g n else ?xs ! j)"
    using Suc.prems by (simp add: nth_list_update)
  also have "\<dots> = (if a \<le> j \<and> j < a + Suc n then g (j - a) else pv ! j)"
  proof (cases "a + n = j")
    case True
    then have "j - a = n" by simp
    with True show ?thesis by auto
  next
    case False
    with Suc show ?thesis by auto
  qed
  finally show ?case .
qed

lemma nth_write_range_in:
  "a + k < length pv \<Longrightarrow> k < n \<Longrightarrow>
   foldl (\<lambda>pv k. pv[a + k := g k]) pv [0..<n] ! (a + k) = g k"
  by (simp add: nth_write_range)

lemma length_assignNaive:
  "length (assignNaive tt fs pv) = length (setPriVarTemperatures tt pv fs)"
  by (simp add: assignNaive_def Let_def)

text \<open>Every slot of the result, whatever the offsets are: the later write wins.\<close>

lemma nth_assignNaive:
  assumes "j < length (setPriVarTemperatures tt pv fs)"
  shows "assignNaive tt fs pv ! j =
     (if S0Idx tt \<le> j \<and> j < S0Idx tt + (numPhases tt - 1)
        then fs_saturation fs (j - S0Idx tt)
      else if j = p0Idx tt then fs_pressure fs 0
      else if fug0Idx tt \<le> j \<and> j < fug0Idx tt + numComponents tt
        then fs_fugacity fs 0 (j - fug0Idx tt)
      else setPriVarTemperatures tt pv fs ! j)"
  using assms by (simp add: assignNaive_def Let_def nth_write_range nth_list_update)

lemma assignNaive_slots:
  assumes "layout_ok tt" and "length (setPriVarTemperatures tt pv fs) = numEq tt"
  shows "length (assignNaive tt fs pv) = numEq tt"
    and "\<forall>c<numComponents tt. assignNaive tt fs pv ! (fug0Idx tt + c) = fs_fugacity fs 0 c"
    and "assignNaive tt fs pv ! p0Idx tt = fs_pressure fs 0"
    and "\<forall>p<numPhases tt - 1. assignNaive tt fs pv ! (S0Idx tt + p) = fs_saturation fs p"
    and "\<forall>j<numEq tt.
           \<not> (fug0Idx tt \<le> j \<and> j < fug0Idx tt + numComponents tt)
           \<and> j \<noteq> p0Idx tt
           \<and> \<not> (S0Idx tt \<le> j \<and> j < S0Idx tt + (numPhases tt - 1))
           \<longrightarrow> assignNaive tt fs pv ! j = setPriVarTemperatures tt pv fs ! j"
proof -
  show "length (assignNaive tt fs pv) = numEq tt"
    using assms(2) by (simp add: length_assignNaive)
  show "\<forall>c<numComponents tt. assignNaive tt fs pv ! (fug0Idx tt + c) = fs_fugacity fs 0 c"
  proof (intro allI impI)
    fix c assume c: "c < numComponents tt"
    then have "fug0Idx tt + c < length (setPriVarTemperatures tt pv fs)"
      using assms by (simp add: layout_ok_def)
    from nth_assignNaive [OF this] c assms(1)
    show "assignNaive tt fs pv ! (fug0Idx tt + c) = fs_fugacity fs 0 c"
      by (auto simp: layout_ok_def)
  qed
  show "assignNaive tt fs pv ! p0Idx tt = fs_pressure fs 0"
  proof -
    have "p0Idx tt < length (setPriVarTemperatures tt pv fs)"
      using assms by (simp add: layout_ok_def)
    from nth_assignNaive [OF this] assms(1) show ?thesis
      by (auto simp: layout_ok_def)
  qed
  show "\<forall>p<numPhases tt - 1. assignNaive tt fs pv ! (S0Idx tt + p) = fs_saturation fs p"
  proof (intro allI impI)
    fix p assume p: "p < numPhases tt - 1"
    then have "S0Idx tt + p < length (setPriVarTemperatures tt pv fs)"
      using assms unfolding layout_ok_def by arith
    then show "assignNaive tt fs pv ! (S0Idx tt + p) = fs_saturation fs p"
      using p unfolding assignNaive_def Let_def
      by (intro nth_write_range_in) simp_all
  qed
  show "\<forall>j<numEq tt.
           \<not> (fug0Idx tt \<le> j \<and> j < fug0Idx tt + numComponents tt)
           \<and> j \<noteq> p0Idx tt
           \<and> \<not> (S0Idx tt \<le> j \<and> j < S0Idx tt + (numPhases tt - 1))
           \<longrightarrow> assignNaive tt fs pv ! j = setPriVarTemperatures tt pv fs ! j"
    using assms(2) by (simp add: nth_assignNaive)
qed

lemma assignNaive_last_saturation:
  assumes "setPriVarTemperatures tt pv
             (fs\<lparr>fs_saturation := (fs_saturation fs)(numPhases tt - 1 := x)\<rparr>)
           = setPriVarTemperatures tt pv fs"
  shows "assignNaive tt (fs\<lparr>fs_saturation := (fs_saturation fs)(numPhases tt - 1 := x)\<rparr>) pv
         = assignNaive tt fs pv"
proof -
  have "foldl (\<lambda>priVars phaseIdx. priVars[S0Idx tt + phaseIdx :=
              ((fs_saturation fs)(numPhases tt - 1 := x)) phaseIdx]) q [0..<numPhases tt - 1]
      = foldl (\<lambda>priVars phaseIdx. priVars[S0Idx tt + phaseIdx := fs_saturation fs phaseIdx]) q
          [0..<numPhases tt - 1]" for q
    by (rule foldl_cong) auto
  then show ?thesis using assms by (simp add: assignNaive_def Let_def)
qed

lemma inner_molarity_loop:
  "c < length gm \<Longrightarrow>
   foldl (\<lambda>gm p. gm[c := gm ! c + g p]) gm [0..<n] = gm[c := gm ! c + (\<Sum>p<n. g p)]"
  by (induction n) (simp_all add: add.assoc)

lemma outer_molarity_loop:
  "k \<le> n \<Longrightarrow>
   foldl (\<lambda>gm c. foldl (\<lambda>gm p. gm[c := gm ! c + g p c]) gm [0..<m]) (replicate n 0) [0..<k]
     = map (\<lambda>c. if c < k then (\<Sum>p<m. g p c) else 0) [0..<n]"
proof (induction k)
  case 0
  then show ?case by (simp add: list_eq_iff_nth_eq)
next
  case (Suc k)
  then show ?case
    by (simp add: inner_molarity_loop list_eq_iff_nth_eq nth_list_update)
qed

lemma globalMolarities_eq:
  "globalMolarities tt fs =
     map (\<lambda>c. \<Sum>p<numPhases tt. fs_saturation fs p * fs_molarity fs p c)
         [0..<numComponents tt]"
  unfolding globalMolarities_def
  by (subst outer_molarity_loop) simp_all

lemma temperatureAsserts_iff:
  "temperatureAsserts tt fs \<longleftrightarrow>
     (\<forall>p. 1 \<le> p \<and> p < numPhases tt \<longrightarrow> fs_temperature fs 0 = fs_temperature fs p)"
  by (auto simp: temperatureAsserts_def list_all_iff)

text \<open>The example configuration, evaluated.\<close>

lemma upt_1_2: "[Suc 0..<2] = [Suc 0]"
  by (simp add: upt_rec)

lemma upt_0_2: "[0..<2] = [0, 1]"
  by (simp add: upt_rec)

lemma upt_0_1: "[0..<1] = [0]"
  by (simp add: upt_rec)

lemma layout_ok_2p2c: "layout_ok (tt_2p2c nd)"
  by (simp add: layout_ok_def tt_2p2c_def)

lemma temperatureAsserts_2p2c:
  "temperatureAsserts (tt_2p2c nd) (fs_example T1) \<longleftrightarrow> T1 = 300"
  by (auto simp: temperatureAsserts_def tt_2p2c_def fs_example_def upt_1_2)

lemma assignNaive_2p2c:
  "assignNaive (tt_2p2c nd) (fs_example T1) [0, 0, 0, 0] = [90000, 10000, 100000, 0.25]"
  by (simp add: assignNaive_def tt_2p2c_def fs_example_def Let_def upt_0_2 upt_0_1)

lemma assignNaive_2p2c_energy:
  "assignNaive (tt_2p2c_energy nd) (fs_example T1) [0, 0, 0, 0, 0]
     = [90000, 10000, 100000, 0.25, 300]"
  by (simp add: assignNaive_def tt_2p2c_energy_def tt_2p2c_def fs_example_def Let_def
      upt_0_2 upt_0_1)

lemma globalMolarities_2p2c:
  "globalMolarities (tt_2p2c nd) (fs_example T1) = [10.75, 41.75]"
  by (simp add: globalMolarities_def tt_2p2c_def fs_example_def upt_0_2 numeral_2_eq_2)

subsection \<open>The equilibrium path\<close>

text \<open>
  C1 (with \<^verbatim>\<open>isInEquilibrium = true\<close> every fluid state is copied into the slots, and
  exactly the fugacities, the pressure and the saturations are written), as stated,
  fails. In a build without \<^verbatim>\<open>NDEBUG\<close> the fluid state whose phases are at 300 K and
  301 K stops at the assertion, and nothing is written. With an energy equation the
  call also writes a temperature: slot 4 of the vector goes from 0 to 300.
\<close>

theorem assignMassConservative_equilibrium_counterexample:
  "assignMassConservative (tt_2p2c False) (fs_example 301) () True [0, 0, 0, 0]
     = Inl AssertFailed
   \<and> assignMassConservative (tt_2p2c_energy True) (fs_example 300) () True [0, 0, 0, 0, 0]
     = Inr [90000, 10000, 100000, 0.25, 300]"
proof -
  have "assignMassConservative (tt_2p2c False) (fs_example 301) () True [0, 0, 0, 0]
          = Inl AssertFailed"
    by (simp add: assignMassConservative_def temperatureAsserts_2p2c) (simp add: tt_2p2c_def)
  moreover have "ndebug (tt_2p2c_energy True)"
    by (simp add: tt_2p2c_energy_def tt_2p2c_def)
  then have "assignMassConservative (tt_2p2c_energy True) (fs_example 300) () True
               [0, 0, 0, 0, 0]
             = Inr (assignNaive (tt_2p2c_energy True) (fs_example 300) [0, 0, 0, 0, 0])"
    by (simp add: assignMassConservative_def)
  ultimately show ?thesis by (simp add: assignNaive_2p2c_energy)
qed

text \<open>
  C1, amended. For a fluid state that passes the temperature assertions, and for every
  fluid state in a build with \<^verbatim>\<open>NDEBUG\<close>, the call with
  \<^verbatim>\<open>isInEquilibrium = true\<close> returns primary variables that hold the fugacity of every
  component in phase 0 at \<^verbatim>\<open>fug0Idx + compIdx\<close>, the pressure of phase 0 at \<^verbatim>\<open>p0Idx\<close>
  and the saturations of the first \<^verbatim>\<open>numPhases - 1\<close> phases at \<^verbatim>\<open>S0Idx + phaseIdx\<close>, each
  equal to the value in the given fluid state; every other slot is as the energy
  module's \<^verbatim>\<open>setPriVarTemperatures\<close> left it; and the result is the same whatever flash
  solver the configuration has. The
  offsets are those of a layout whose three groups of slots lie in the vector and do
  not overlap.
\<close>

theorem assignMassConservative_equilibrium:
  assumes "layout_ok tt"
    and "length (setPriVarTemperatures tt priVars fluidState) = numEq tt"
    and "ndebug tt \<or> temperatureAsserts tt fluidState"
  shows "\<exists>pv. assignMassConservative tt fluidState matParams True priVars = Inr pv
           \<and> length pv = numEq tt
           \<and> (\<forall>c<numComponents tt. pv ! (fug0Idx tt + c) = fs_fugacity fluidState 0 c)
           \<and> pv ! p0Idx tt = fs_pressure fluidState 0
           \<and> (\<forall>p<numPhases tt - 1. pv ! (S0Idx tt + p) = fs_saturation fluidState p)
           \<and> (\<forall>j<numEq tt.
                 \<not> (fug0Idx tt \<le> j \<and> j < fug0Idx tt + numComponents tt)
                 \<and> j \<noteq> p0Idx tt
                 \<and> \<not> (S0Idx tt \<le> j \<and> j < S0Idx tt + (numPhases tt - 1))
                 \<longrightarrow> pv ! j = setPriVarTemperatures tt priVars fluidState ! j)
           \<and> assignMassConservative (tt\<lparr>NcpFlash_solve := solve\<rparr>) fluidState matParams
                True priVars = Inr pv"
proof -
  have run: "assignMassConservative tt fluidState matParams True priVars
               = Inr (assignNaive tt fluidState priVars)"
    using assms(3) by (auto simp: assignMassConservative_def)
  have "temperatureAsserts (tt\<lparr>NcpFlash_solve := solve\<rparr>) fluidState
          = temperatureAsserts tt fluidState"
    by (simp add: temperatureAsserts_def)
  moreover have "assignNaive (tt\<lparr>NcpFlash_solve := solve\<rparr>) fluidState priVars
          = assignNaive tt fluidState priVars"
    by (simp add: assignNaive_def)
  ultimately have other: "assignMassConservative (tt\<lparr>NcpFlash_solve := solve\<rparr>) fluidState
      matParams True priVars = Inr (assignNaive tt fluidState priVars)"
    using assms(3) by (auto simp: assignMassConservative_def)
  from run other assignNaive_slots [OF assms(1) assms(2)] show ?thesis
    by (intro exI [of _ "assignNaive tt fluidState priVars"]) blast
qed

theorem assignMassConservative_equilibrium_witness:
  "layout_ok (tt_2p2c False)
   \<and> length (setPriVarTemperatures (tt_2p2c False) [0, 0, 0, 0] (fs_example 300))
       = numEq (tt_2p2c False)
   \<and> temperatureAsserts (tt_2p2c False) (fs_example 300)
   \<and> (\<exists>pv. assignMassConservative (tt_2p2c False) (fs_example 300) () True [0, 0, 0, 0]
              = Inr pv
            \<and> pv ! p0Idx (tt_2p2c False) = fs_pressure (fs_example 300) 0
            \<and> pv ! (S0Idx (tt_2p2c False) + 0) = fs_saturation (fs_example 300) 0)"
proof -
  have l: "layout_ok (tt_2p2c False)"
    by (rule layout_ok_2p2c)
  have n: "length (setPriVarTemperatures (tt_2p2c False) [0, 0, 0, 0] (fs_example 300))
             = numEq (tt_2p2c False)"
    by (simp add: tt_2p2c_def)
  have t: "temperatureAsserts (tt_2p2c False) (fs_example 300)"
    by (simp add: temperatureAsserts_2p2c)
  have p: "(0::nat) < numPhases (tt_2p2c False) - 1"
    by (simp add: tt_2p2c_def)
  from assignMassConservative_equilibrium [OF l n disjI2 [OF t], of "()"] p
  have "\<exists>pv. assignMassConservative (tt_2p2c False) (fs_example 300) () True [0, 0, 0, 0]
              = Inr pv
            \<and> pv ! p0Idx (tt_2p2c False) = fs_pressure (fs_example 300) 0
            \<and> pv ! (S0Idx (tt_2p2c False) + 0) = fs_saturation (fs_example 300) 0"
    by blast
  with l n t show ?thesis by blast
qed

subsection \<open>The path through the flash solver\<close>

text \<open>
  C2 (with \<^verbatim>\<open>isInEquilibrium = false\<close> every fluid state goes through the flash
  solver), as stated, fails for the same build and fluid state: the assertion stops
  the call before the global molarities are computed.
\<close>

theorem assignMassConservative_flash_counterexample:
  "assignMassConservative (tt_2p2c False) (fs_example 301) () False [0, 0, 0, 0]
     = Inl AssertFailed"
  by (simp add: assignMassConservative_def temperatureAsserts_2p2c) (simp add: tt_2p2c_def)

text \<open>
  C2, amended. For a fluid state that passes the temperature assertions, and for every
  fluid state in a build with \<^verbatim>\<open>NDEBUG\<close>, the call with \<^verbatim>\<open>isInEquilibrium = false\<close>
  returns what \<^verbatim>\<open>assignNaive_\<close> extracts from the fluid state that the flash solver
  computes from the given fluid state as initial value, the given material-law
  parameters and the global molarities; these are one entry per component, the sum
  over all phases of saturation times molarity.
\<close>

theorem assignMassConservative_flash:
  assumes "ndebug tt \<or> temperatureAsserts tt fluidState"
  shows "assignMassConservative tt fluidState matParams False priVars
           = Inr (assignNaive tt
                    (NcpFlash_solve tt fluidState matParams (globalMolarities tt fluidState))
                    priVars)
         \<and> length (globalMolarities tt fluidState) = numComponents tt
         \<and> (\<forall>c<numComponents tt.
               globalMolarities tt fluidState ! c
                 = (\<Sum>p<numPhases tt. fs_saturation fluidState p * fs_molarity fluidState p c))"
proof -
  have "assignMassConservative tt fluidState matParams False priVars
           = Inr (assignNaive tt
                    (NcpFlash_solve tt fluidState matParams (globalMolarities tt fluidState))
                    priVars)"
    using assms by (auto simp: assignMassConservative_def Let_def)
  then show ?thesis by (simp add: globalMolarities_eq)
qed

theorem assignMassConservative_flash_witness:
  "ndebug (tt_2p2c True)
   \<and> assignMassConservative (tt_2p2c True) (fs_example 301) () False [0, 0, 0, 0]
       = Inr [90000, 10000, 100000, 0.25]
   \<and> globalMolarities (tt_2p2c True) (fs_example 301) ! 1
       = (\<Sum>p<numPhases (tt_2p2c True).
            fs_saturation (fs_example 301) p * fs_molarity (fs_example 301) p 1)"
proof -
  have d: "ndebug (tt_2p2c True)"
    by (simp add: tt_2p2c_def)
  have s: "NcpFlash_solve (tt_2p2c True) (fs_example 301) ()
             (globalMolarities (tt_2p2c True) (fs_example 301)) = fs_example 301"
    by (simp add: tt_2p2c_def)
  have c: "(1::nat) < numComponents (tt_2p2c True)"
    by (simp add: tt_2p2c_def)
  from assignMassConservative_flash [OF disjI1 [OF d], of "fs_example 301" "()" "[0, 0, 0, 0]"] c
  show ?thesis unfolding s assignNaive_2p2c using d by blast
qed

subsection \<open>The temperature check\<close>

text \<open>
  C7 (the equal-temperature precondition is checked by a debug-build assertion only).
  The call stops at an assertion exactly when the build has no \<^verbatim>\<open>NDEBUG\<close> and some phase
  from 1 on has a temperature other than that of phase 0. In a build with \<^verbatim>\<open>NDEBUG\<close>
  the call returns primary variables for every fluid state, whatever its temperatures:
  those of the given state on the equilibrium path, those of the flash result
  otherwise.
\<close>

theorem temperature_check_debug_only:
  "(assignMassConservative tt fluidState matParams isInEquilibrium priVars = Inl AssertFailed
      \<longleftrightarrow> \<not> ndebug tt
          \<and> (\<exists>p. 1 \<le> p \<and> p < numPhases tt
                 \<and> fs_temperature fluidState 0 \<noteq> fs_temperature fluidState p))
   \<and> (ndebug tt \<longrightarrow>
        assignMassConservative tt fluidState matParams isInEquilibrium priVars
          = Inr (assignNaive tt
                   (if isInEquilibrium then fluidState
                    else NcpFlash_solve tt fluidState matParams
                           (globalMolarities tt fluidState))
                   priVars))"
  by (auto simp: assignMassConservative_def Let_def temperatureAsserts_iff)

theorem temperature_check_debug_only_witness:
  "ndebug (tt_2p2c True)
   \<and> fs_temperature (fs_example 301) 0 \<noteq> fs_temperature (fs_example 301) 1
   \<and> assignMassConservative (tt_2p2c True) (fs_example 301) () True [0, 0, 0, 0]
       = Inr [90000, 10000, 100000, 0.25]"
proof -
  have d: "ndebug (tt_2p2c True)"
    by (simp add: tt_2p2c_def)
  have m: "fs_temperature (fs_example 301) 0 \<noteq> fs_temperature (fs_example 301) 1"
    by (simp add: fs_example_def)
  from temperature_check_debug_only [of "tt_2p2c True" "fs_example 301" "()" True "[0, 0, 0, 0]"] d
  have "assignMassConservative (tt_2p2c True) (fs_example 301) () True [0, 0, 0, 0]
          = Inr (assignNaive (tt_2p2c True) (fs_example 301) [0, 0, 0, 0])"
    by simp
  then show ?thesis using d m by (simp add: assignNaive_2p2c)
qed

subsection \<open>The layout of the vector\<close>

text \<open>
  C8 (one slot per component for the fugacities of phase 0, one for its pressure,
  \<^verbatim>\<open>numPhases - 1\<close> for saturations; the last saturation is not stored). In a layout
  whose groups of slots lie in the vector and do not overlap, \<^verbatim>\<open>assignNaive_\<close> leaves
  the fugacities at \<^verbatim>\<open>fug0Idx + compIdx\<close>, the pressure at \<^verbatim>\<open>p0Idx\<close> and the saturations
  of the phases before the last at \<^verbatim>\<open>S0Idx + phaseIdx\<close>, and no other slot differs from
  what the energy module returned. Changing the saturation of the last phase in the
  fluid state changes nothing in the result, as long as the energy module does not
  read it. When the saturations sum to one, the last one is one minus the sum of the
  stored ones.
\<close>

theorem assignNaive_layout:
  assumes "layout_ok tt"
    and "length (setPriVarTemperatures tt priVars fluidState) = numEq tt"
  shows "length (assignNaive tt fluidState priVars) = numEq tt
         \<and> (\<forall>c<numComponents tt.
               assignNaive tt fluidState priVars ! (fug0Idx tt + c) = fs_fugacity fluidState 0 c)
         \<and> assignNaive tt fluidState priVars ! p0Idx tt = fs_pressure fluidState 0
         \<and> (\<forall>p<numPhases tt - 1.
               assignNaive tt fluidState priVars ! (S0Idx tt + p) = fs_saturation fluidState p)
         \<and> (\<forall>j<numEq tt.
               \<not> (fug0Idx tt \<le> j \<and> j < fug0Idx tt + numComponents tt)
               \<and> j \<noteq> p0Idx tt
               \<and> \<not> (S0Idx tt \<le> j \<and> j < S0Idx tt + (numPhases tt - 1))
               \<longrightarrow> assignNaive tt fluidState priVars ! j
                     = setPriVarTemperatures tt priVars fluidState ! j)
         \<and> (setPriVarTemperatures tt priVars
               (fluidState\<lparr>fs_saturation := (fs_saturation fluidState)(numPhases tt - 1 := x)\<rparr>)
              = setPriVarTemperatures tt priVars fluidState
             \<longrightarrow> assignNaive tt
                   (fluidState\<lparr>fs_saturation := (fs_saturation fluidState)(numPhases tt - 1 := x)\<rparr>)
                   priVars
                 = assignNaive tt fluidState priVars)
         \<and> (0 < numPhases tt \<and> (\<Sum>p<numPhases tt. fs_saturation fluidState p) = 1
             \<longrightarrow> fs_saturation fluidState (numPhases tt - 1)
                 = 1 - (\<Sum>p<numPhases tt - 1. assignNaive tt fluidState priVars ! (S0Idx tt + p)))"
proof -
  note slots = assignNaive_slots [OF assms]
  have closure: "fs_saturation fluidState (numPhases tt - 1)
                 = 1 - (\<Sum>p<numPhases tt - 1. assignNaive tt fluidState priVars ! (S0Idx tt + p))"
    if "0 < numPhases tt" "(\<Sum>p<numPhases tt. fs_saturation fluidState p) = 1"
  proof -
    from that(1) obtain m where m: "numPhases tt = Suc m" by (cases "numPhases tt") auto
    have "(\<Sum>p<numPhases tt - 1. assignNaive tt fluidState priVars ! (S0Idx tt + p))
            = (\<Sum>p<numPhases tt - 1. fs_saturation fluidState p)"
      using slots(4) by (intro sum.cong) simp_all
    moreover have "(\<Sum>p<numPhases tt. fs_saturation fluidState p)
            = (\<Sum>p<numPhases tt - 1. fs_saturation fluidState p)
              + fs_saturation fluidState (numPhases tt - 1)"
      by (simp add: m)
    ultimately show ?thesis using that(2) by simp
  qed
  from slots closure assignNaive_last_saturation [of tt priVars fluidState x]
  show ?thesis by blast
qed

theorem assignNaive_layout_witness:
  "layout_ok (tt_2p2c True)
   \<and> length (setPriVarTemperatures (tt_2p2c True) [0, 0, 0, 0] (fs_example 300))
       = numEq (tt_2p2c True)
   \<and> (\<Sum>p<numPhases (tt_2p2c True). fs_saturation (fs_example 300) p) = 1
   \<and> assignNaive (tt_2p2c True)
        ((fs_example 300)\<lparr>fs_saturation := (fs_saturation (fs_example 300))(1 := 0.5)\<rparr>)
        [0, 0, 0, 0]
       = [90000, 10000, 100000, 0.25]
   \<and> fs_saturation (fs_example 300) 1
       = 1 - (\<Sum>p<numPhases (tt_2p2c True) - 1.
                assignNaive (tt_2p2c True) (fs_example 300) [0, 0, 0, 0]
                  ! (S0Idx (tt_2p2c True) + p))"
proof -
  have l: "layout_ok (tt_2p2c True)"
    by (rule layout_ok_2p2c)
  have n: "length (setPriVarTemperatures (tt_2p2c True) [0, 0, 0, 0] (fs_example 300))
             = numEq (tt_2p2c True)"
    by (simp add: tt_2p2c_def)
  have one: "(\<Sum>p<numPhases (tt_2p2c True). fs_saturation (fs_example 300) p) = 1"
    by (simp add: tt_2p2c_def fs_example_def numeral_2_eq_2)
  have np: "numPhases (tt_2p2c True) - 1 = 1" "0 < numPhases (tt_2p2c True)"
    by (simp_all add: tt_2p2c_def)
  have e: "setPriVarTemperatures (tt_2p2c True) [0, 0, 0, 0]
             ((fs_example 300)\<lparr>fs_saturation := (fs_saturation (fs_example 300))(1 := 0.5)\<rparr>)
           = setPriVarTemperatures (tt_2p2c True) [0, 0, 0, 0] (fs_example 300)"
    by (simp add: tt_2p2c_def)
  from assignNaive_layout [OF l n, of "0.5"] one np e
  have "assignNaive (tt_2p2c True)
          ((fs_example 300)\<lparr>fs_saturation := (fs_saturation (fs_example 300))(1 := 0.5)\<rparr>)
          [0, 0, 0, 0]
        = assignNaive (tt_2p2c True) (fs_example 300) [0, 0, 0, 0]"
    and "fs_saturation (fs_example 300) 1
       = 1 - (\<Sum>p<numPhases (tt_2p2c True) - 1.
                assignNaive (tt_2p2c True) (fs_example 300) [0, 0, 0, 0]
                  ! (S0Idx (tt_2p2c True) + p))"
    by simp_all
  with l n one show ?thesis by (simp add: assignNaive_2p2c)
qed

end
